theory Spec2Isabelle
  imports Main
begin

section \<open>ioSPI: uploading TEM simulator output to OSF.io (\<open>ioSPI/tem_upload.py\<close>)\<close>

text \<open>
  The module holds one class, \<open>TEMUpload\<close>. Every method talks to the OSF service through
  the \<open>requests\<close> library, reads local files and prints notices. The embedding makes these
  effects explicit: a \<open>world\<close> value holds what the network is going to answer, what has
  been sent so far, which local paths can be opened, which file handles the program has
  opened, and what has been printed. A method is a function from a world to a result and
  the next world; an exception is the \<open>Inl\<close> branch of the result.
\<close>

subsection \<open>Python values\<close>

text \<open>
  What \<open>response.json()\<close> returns: \<open>None\<close>, \<open>bool\<close>, \<open>int\<close>, \<open>str\<close>, \<open>list\<close> and
  \<open>dict\<close> with \<open>str\<close> keys (the items of the dict, in order). Numbers with a fraction
  or an exponent are Python floats and are left out.
\<close>

datatype json =
    JNull
  | JBool bool
  | JNum int
  | JStr string
  | JArr "json list"
  | JObj "(string \<times> json) list"

text \<open>
  The text of an f-string: its literal pieces and its replacement fields in order. A
  replacement field keeps the value it formats; the characters that \<open>str()\<close> makes of the
  value are not expanded. \<open>FmtPath p\<close> is the field of a \<open>pathlib.Path\<close> built from \<open>p\<close>.
  String concatenation \<open>+\<close> is \<open>@\<close>.
\<close>

datatype part = Lit string | Fmt json | FmtPath string

type_synonym pystr = "part list"

subsection \<open>Requests, responses, exceptions\<close>

datatype http_method = GET | POST | PUT

text \<open>
  The keyword arguments of a call of \<open>requests\<close>: none, \<open>json=\<close>, or \<open>files=\<close> (a dict
  from the form-field name to the file object, here the path the handle was opened on).
\<close>

datatype payload = NoPayload | JsonPayload json | FilesPayload "(string \<times> string) list"

record request =
  req_method :: http_method
  req_url :: pystr
  req_headers :: "(string \<times> string) list"
  req_payload :: payload

text \<open>The body of a response either decodes as JSON or is text that does not.\<close>

datatype body = JsonBody json | RawBody string

record response =
  status_code :: int
  content :: body

text \<open>
  The exceptions the module can raise. \<open>HTTPError\<close> is what \<open>raise_for_status\<close> raises and
  carries the response; \<open>RequestException\<close> stands for every failure of \<open>requests\<close> to get
  a response at all (connection refused, timeout, ...); \<open>OSError\<close> is a failed \<open>open\<close>.
\<close>

datatype error =
    HTTPError response
  | RequestException
  | JSONDecodeError
  | KeyError json
  | TypeError
  | OSError string

subsection \<open>The world and the effect monad\<close>

datatype reply = Response response | NoResponse

record world =
  inbound :: "reply list"
  sent :: "request list"
  readable :: "string list"
  handles :: "string list"
  stdout :: "pystr list"

type_synonym 'a io = "world \<Rightarrow> (error + 'a) \<times> world"

definition io_return :: "'a \<Rightarrow> 'a io" where
  "io_return x w = (Inr x, w)"

definition io_raise :: "error \<Rightarrow> 'a io" where
  "io_raise e w = (Inl e, w)"

definition io_bind :: "'a io \<Rightarrow> ('a \<Rightarrow> 'b io) \<Rightarrow> 'b io" where
  "io_bind m k w = (case m w of (Inl e, w') \<Rightarrow> (Inl e, w') | (Inr x, w') \<Rightarrow> k x w')"

text \<open>A pure computation that may raise, run inside the monad.\<close>

definition io_of :: "error + 'a \<Rightarrow> 'a io" where
  "io_of r w = (r, w)"

text \<open>
  One call of \<open>requests\<close>: the request is recorded as sent; the next pending reply answers
  it. When no reply is pending, or the reply is \<open>NoResponse\<close>, the call raises.
\<close>

definition send :: "request \<Rightarrow> response io" where
  "send rq w =
     (case inbound w of
        [] \<Rightarrow> (Inl RequestException, w\<lparr>sent := sent w @ [rq]\<rparr>)
      | NoResponse # rs \<Rightarrow> (Inl RequestException, w\<lparr>inbound := rs, sent := sent w @ [rq]\<rparr>)
      | Response r # rs \<Rightarrow> (Inr r, w\<lparr>inbound := rs, sent := sent w @ [rq]\<rparr>))"

definition requests_get :: "pystr \<Rightarrow> (string \<times> string) list \<Rightarrow> response io" where
  "requests_get url hdrs =
     send \<lparr>req_method = GET, req_url = url, req_headers = hdrs, req_payload = NoPayload\<rparr>"

definition requests_post :: "pystr \<Rightarrow> (string \<times> string) list \<Rightarrow> json \<Rightarrow> response io" where
  "requests_post url hdrs js =
     send \<lparr>req_method = POST, req_url = url, req_headers = hdrs, req_payload = JsonPayload js\<rparr>"

definition requests_put ::
  "pystr \<Rightarrow> (string \<times> string) list \<Rightarrow> (string \<times> string) list \<Rightarrow> response io" where
  "requests_put url files hdrs =
     send \<lparr>req_method = PUT, req_url = url, req_headers = hdrs, req_payload = FilesPayload files\<rparr>"

text \<open>
  \<open>Response.raise_for_status()\<close> of \<open>requests\<close>: an \<open>HTTPError\<close> holding the response
  for a client error (400 to 499) or a server error (500 to 599), nothing otherwise.
\<close>

definition raise_for_status :: "response \<Rightarrow> unit io" where
  "raise_for_status r =
     (if 400 \<le> status_code r \<and> status_code r < 600 then io_raise (HTTPError r)
      else io_return ())"

text \<open>\<open>Response.json()\<close>.\<close>

definition response_json :: "response \<Rightarrow> error + json" where
  "response_json r = (case content r of JsonBody j \<Rightarrow> Inr j | RawBody _ \<Rightarrow> Inl JSONDecodeError)"

text \<open>
  \<open>open(path, "rb")\<close>. \<open>handles\<close> lists the files the program has opened and not
  closed itself, by \<open>close()\<close> or by leaving a \<open>with\<close> block. What the garbage collector
  of the Python runtime reclaims later is not part of the model.
\<close>

definition open_rb :: "string \<Rightarrow> string io" where
  "open_rb p w =
     (if p \<in> set (readable w) then (Inr p, w\<lparr>handles := handles w @ [p]\<rparr>)
      else (Inl (OSError p), w))"

definition print :: "pystr \<Rightarrow> unit io" where
  "print s w = (Inr (), w\<lparr>stdout := stdout w @ [s]\<rparr>)"

subsection \<open>Subscripts, iteration and dicts\<close>

text \<open>\<open>v[key]\<close> with a \<open>str\<close> key: only a dict can be subscripted by a string.\<close>

fun getitem :: "json \<Rightarrow> string \<Rightarrow> error + json" where
  "getitem (JObj kvs) k = (case map_of kvs k of None \<Rightarrow> Inl (KeyError (JStr k)) | Some v \<Rightarrow> Inr v)"
| "getitem _ k = Inl TypeError"

text \<open>
  \<open>for child in v\<close>: a list gives its elements, a dict its keys, a string its characters;
  the other values are not iterable.
\<close>

fun py_iter :: "json \<Rightarrow> error + json list" where
  "py_iter (JArr xs) = Inr xs"
| "py_iter (JObj kvs) = Inr (map (\<lambda>kv. JStr (fst kv)) kvs)"
| "py_iter (JStr s) = Inr (map (\<lambda>c. JStr [c]) s)"
| "py_iter _ = Inl TypeError"

text \<open>
  A dict built at run time, as its items in insertion order. Keys must be hashable (lists
  and dicts are not) and are compared with \<open>==\<close>, under which \<open>True\<close> is \<open>1\<close> and \<open>False\<close>
  is \<open>0\<close>. Storing under a key that is present replaces the value and keeps the place.
\<close>

type_synonym pydict = "(json \<times> json) list"

fun hashable :: "json \<Rightarrow> bool" where
  "hashable (JArr _) = False"
| "hashable (JObj _) = False"
| "hashable _ = True"

fun py_eq :: "json \<Rightarrow> json \<Rightarrow> bool" where
  "py_eq JNull JNull = True"
| "py_eq (JStr a) (JStr b) = (a = b)"
| "py_eq (JNum a) (JNum b) = (a = b)"
| "py_eq (JBool a) (JBool b) = (a = b)"
| "py_eq (JNum a) (JBool b) = (a = (if b then 1 else 0))"
| "py_eq (JBool a) (JNum b) = ((if a then 1 else 0) = b)"
| "py_eq _ _ = False"

fun dict_store :: "pydict \<Rightarrow> json \<Rightarrow> json \<Rightarrow> pydict" where
  "dict_store [] k v = [(k, v)]"
| "dict_store ((k', v') # d) k v =
     (if py_eq k' k then (k', v) # d else (k', v') # dict_store d k v)"

definition dict_setitem :: "pydict \<Rightarrow> json \<Rightarrow> json \<Rightarrow> error + pydict" where
  "dict_setitem d k v = (if hashable k then Inr (dict_store d k v) else Inl TypeError)"

text \<open>\<open>k in d\<close> and \<open>d[k]\<close>.\<close>

definition dict_contains :: "pydict \<Rightarrow> json \<Rightarrow> bool" where
  "dict_contains d k = list_ex (\<lambda>kv. py_eq (fst kv) k) d"

definition dict_getitem :: "pydict \<Rightarrow> json \<Rightarrow> error + json" where
  "dict_getitem d k =
     (case find (\<lambda>kv. py_eq (fst kv) k) d of None \<Rightarrow> Inl (KeyError k) | Some kv \<Rightarrow> Inr (snd kv))"

text \<open>A dict with \<open>str\<close> keys handed in by the caller, and \<open>d[k]\<close> on it.\<close>

definition str_getitem :: "(string \<times> 'v) list \<Rightarrow> string \<Rightarrow> error + 'v" where
  "str_getitem d k = (case map_of d k of None \<Rightarrow> Inl (KeyError (JStr k)) | Some v \<Rightarrow> Inr v)"

text \<open>\<open>pathlib.Path(s).name\<close> on POSIX: the last component that is neither empty nor \<open>.\<close>.\<close>

fun split_on :: "char \<Rightarrow> string \<Rightarrow> string list" where
  "split_on c [] = [[]]"
| "split_on c (x # xs) =
     (if x = c then [] # split_on c xs
      else (case split_on c xs of [] \<Rightarrow> [[x]] | y # ys \<Rightarrow> (x # y) # ys))"

definition path_name :: "string \<Rightarrow> string" where
  "path_name s =
     (case filter (\<lambda>c. c \<noteq> [] \<and> c \<noteq> ''.'') (split_on (CHR ''/'') s) of
        [] \<Rightarrow> []
      | c # cs \<Rightarrow> last (c # cs))"

subsection \<open>The class \<open>TEMUpload\<close>\<close>

record TEMUpload =
  headers :: "(string \<times> string) list"
  base_url :: string
  data_node_guid :: string

text \<open>
  The \<open>TEMSimulator\<close> of simSPI as far as the module reads it: \<open>path_dict\<close> and
  \<open>output_path_dict\<close> map keywords to strings, \<open>sim_dict\<close> maps parameter names to values;
  each is the dict's items in insertion order.
\<close>

record TEMSimulator =
  path_dict :: "(string \<times> string) list"
  sim_dict :: "(string \<times> json) list"
  output_path_dict :: "(string \<times> string) list"

text \<open>\<open>__init__\<close>: the attributes are set and the base url is fetched once.\<close>

definition liveness_request :: "string \<Rightarrow> request" where
  "liveness_request token =
     \<lparr>req_method = GET, req_url = [Lit ''https://api.osf.io/v2/''],
      req_headers = [(''Authorization'', ''Bearer '' @ token)], req_payload = NoPayload\<rparr>"

definition TEMUpload_init :: "string \<Rightarrow> string \<Rightarrow> TEMUpload io" where
  "TEMUpload_init token guid =
     (let hdrs = [(''Authorization'', ''Bearer '' @ token)];
          base = ''https://api.osf.io/v2/''
      in io_bind (requests_get [Lit base] hdrs) (\<lambda>response.
         io_bind (raise_for_status response) (\<lambda>_.
         io_return \<lparr>headers = hdrs, base_url = base, data_node_guid = guid\<rparr>)))"

text \<open>\<open>generate_tags_from_tem\<close>: \<open>list(sim_dict.values())\<close>.\<close>

definition dict_values :: "('k \<times> 'v) list \<Rightarrow> 'v list" where
  "dict_values d = map snd d"

definition generate_tags_from_tem :: "TEMSimulator \<Rightarrow> json list" where
  "generate_tags_from_tem tem_wrapper =
     (let placeholder_values = sim_dict tem_wrapper in dict_values placeholder_values)"

text \<open>\<open>post_child_node\<close>.\<close>

definition children_url :: "TEMUpload \<Rightarrow> json \<Rightarrow> pystr" where
  "children_url self parent_guid =
     [Fmt (JStr (base_url self)), Lit ''nodes/'', Fmt parent_guid, Lit ''/children/'']"

definition node_attributes :: "string \<Rightarrow> json list option \<Rightarrow> (string \<times> json) list" where
  "node_attributes title tags =
     (let attributes = [(''title'', JStr title), (''category'', JStr ''data''), (''public'', JBool True)]
      in case tags of None \<Rightarrow> attributes | Some ts \<Rightarrow> attributes @ [(''tags'', JArr ts)])"

definition post_request :: "TEMUpload \<Rightarrow> json \<Rightarrow> string \<Rightarrow> json list option \<Rightarrow> request" where
  "post_request self parent_guid title tags =
     \<lparr>req_method = POST, req_url = children_url self parent_guid, req_headers = headers self,
      req_payload = JsonPayload (JObj [(''data'',
         JObj [(''type'', JStr ''nodes''), (''attributes'', JObj (node_attributes title tags))])])\<rparr>"

definition post_child_node :: "TEMUpload \<Rightarrow> json \<Rightarrow> string \<Rightarrow> json list option \<Rightarrow> json io" where
  "post_child_node self parent_guid title tags =
     (let request_url = children_url self parent_guid;
          request_body = JObj [(''type'', JStr ''nodes''),
                               (''attributes'', JObj (node_attributes title tags))]
      in io_bind (requests_post request_url (headers self) (JObj [(''data'', request_body)]))
           (\<lambda>response.
         io_bind (raise_for_status response) (\<lambda>_.
         io_bind (io_of (response_json response)) (\<lambda>j.
         io_bind (io_of (getitem j ''data'')) (\<lambda>d.
         io_of (getitem d ''id''))))))"

text \<open>
  \<open>get_existing_molecules\<close>. The dict comprehension evaluates, for each child in turn, the
  key \<open>child["attributes"]["title"]\<close>, then the value \<open>child["id"]\<close>, then stores.
\<close>

definition child_entry :: "json \<Rightarrow> error + (json \<times> json)" where
  "child_entry child =
     (case getitem child ''attributes'' of
        Inl e \<Rightarrow> Inl e
      | Inr a \<Rightarrow>
          (case getitem a ''title'' of
             Inl e \<Rightarrow> Inl e
           | Inr t \<Rightarrow> (case getitem child ''id'' of Inl e \<Rightarrow> Inl e | Inr i \<Rightarrow> Inr (t, i))))"

fun comprehend :: "pydict \<Rightarrow> json list \<Rightarrow> error + pydict" where
  "comprehend d [] = Inr d"
| "comprehend d (child # rest) =
     (case child_entry child of
        Inl e \<Rightarrow> Inl e
      | Inr (t, i) \<Rightarrow>
          (case dict_setitem d t i of Inl e \<Rightarrow> Inl e | Inr d' \<Rightarrow> comprehend d' rest))"

definition dict_comprehension :: "json \<Rightarrow> error + pydict" where
  "dict_comprehension dataset_node_children =
     (case py_iter dataset_node_children of Inl e \<Rightarrow> Inl e | Inr cs \<Rightarrow> comprehend [] cs)"

definition list_request :: "TEMUpload \<Rightarrow> request" where
  "list_request self =
     \<lparr>req_method = GET, req_url = children_url self (JStr (data_node_guid self)),
      req_headers = headers self, req_payload = NoPayload\<rparr>"

definition get_existing_molecules :: "TEMUpload \<Rightarrow> pydict io" where
  "get_existing_molecules self =
     (let request_url = children_url self (JStr (data_node_guid self))
      in io_bind (requests_get request_url (headers self)) (\<lambda>response.
         io_bind (raise_for_status response) (\<lambda>_.
         io_bind (io_of (response_json response)) (\<lambda>j.
         io_bind (io_of (getitem j ''data'')) (\<lambda>dataset_node_children.
         io_of (dict_comprehension dataset_node_children))))))"

text \<open>\<open>get_molecule_guid\<close>.\<close>

definition get_molecule_guid :: "TEMUpload \<Rightarrow> string \<Rightarrow> json io" where
  "get_molecule_guid self molecule_label =
     io_bind (get_existing_molecules self) (\<lambda>existing_molecules.
       if \<not> dict_contains existing_molecules (JStr molecule_label)
       then post_child_node self (JStr (data_node_guid self)) molecule_label None
       else io_of (dict_getitem existing_molecules (JStr molecule_label)))"

text \<open>
  \<open>post_files\<close>. The loop carries \<open>success\<close>; each round opens the file, sends it, and
  prints one notice. Nothing in the loop closes the file.
\<close>

definition files_url :: "json \<Rightarrow> pystr" where
  "files_url dataset_guid =
     (let files_base_url = ''http://files.ca-1.osf.io/v1/resources/''
      in [Fmt (JStr files_base_url), Fmt dataset_guid, Lit ''/providers/osfstorage/''])"

definition put_request :: "TEMUpload \<Rightarrow> pystr \<Rightarrow> string \<Rightarrow> request" where
  "put_request self request_url file_path_string =
     \<lparr>req_method = PUT,
      req_url = request_url @ [Lit ''?kind=file&name='', Fmt (JStr (path_name file_path_string))],
      req_headers = headers self,
      req_payload = FilesPayload [(path_name file_path_string, file_path_string)]\<rparr>"

fun post_files_loop :: "TEMUpload \<Rightarrow> pystr \<Rightarrow> string list \<Rightarrow> bool \<Rightarrow> bool io" where
  "post_files_loop self request_url [] success = io_return success"
| "post_files_loop self request_url (file_path_string # rest) success =
     io_bind (open_rb file_path_string) (\<lambda>handle.
       let files = [(path_name file_path_string, handle)];
           query_parameters = [Lit ''?kind=file&name='', Fmt (JStr (path_name file_path_string))]
       in io_bind (requests_put (request_url @ query_parameters) files (headers self))
            (\<lambda>response.
          if status_code response \<noteq> 201
          then io_bind (print [Lit ''Upload '', FmtPath file_path_string,
                               Lit '' failed with code '', Fmt (JNum (status_code response))])
                 (\<lambda>_. post_files_loop self request_url rest False)
          else io_bind (print [Lit ''Uploaded '', FmtPath file_path_string, Lit '' ''])
                 (\<lambda>_. post_files_loop self request_url rest success)))"

definition post_files :: "TEMUpload \<Rightarrow> json \<Rightarrow> string list \<Rightarrow> bool io" where
  "post_files self dataset_guid file_paths =
     (let request_url = files_url dataset_guid
      in post_files_loop self request_url file_paths True)"

text \<open>\<open>upload_dataset_from_tem\<close>.\<close>

definition upload_dataset_from_tem :: "TEMUpload \<Rightarrow> TEMSimulator \<Rightarrow> bool io" where
  "upload_dataset_from_tem self tem_sim =
     io_bind (io_of (str_getitem (path_dict tem_sim) ''pdb_keyword'')) (\<lambda>pdb.
     io_bind (io_of (str_getitem (path_dict tem_sim) ''micrograph_keyword'')) (\<lambda>micrograph.
     let dataset_label = pdb @ micrograph in
     io_bind (io_of (str_getitem (path_dict tem_sim) ''pdb_keyword'')) (\<lambda>molecule_label.
     io_bind (get_molecule_guid self molecule_label) (\<lambda>molecule_guid.
     io_bind (post_child_node self molecule_guid dataset_label
                (Some (generate_tags_from_tem tem_sim))) (\<lambda>dataset_guid.
     io_bind (io_of (str_getitem (output_path_dict tem_sim) ''h5_file'')) (\<lambda>h5_file.
     let upload_file_paths = [h5_file] in
     post_files self dataset_guid upload_file_paths))))))"

subsection \<open>Scenarios\<close>

text \<open>Concrete sessions, replies and worlds on which the theorems below are run.\<close>

definition demo_session :: TEMUpload where
  "demo_session =
     \<lparr>headers = [(''Authorization'', ''Bearer tok'')], base_url = ''https://api.osf.io/v2/'',
      data_node_guid = ''R''\<rparr>"

definition child_node :: "string \<Rightarrow> string \<Rightarrow> json" where
  "child_node title gid = JObj [(''id'', JStr gid), (''attributes'', JObj [(''title'', JStr title)])]"

definition listing :: "int \<Rightarrow> json list \<Rightarrow> response" where
  "listing code cs = \<lparr>status_code = code, content = JsonBody (JObj [(''data'', JArr cs)])\<rparr>"

definition created :: "string \<Rightarrow> response" where
  "created gid =
     \<lparr>status_code = 201, content = JsonBody (JObj [(''data'', JObj [(''id'', JStr gid)])])\<rparr>"

definition status_only :: "int \<Rightarrow> response" where
  "status_only code = \<lparr>status_code = code, content = RawBody []\<rparr>"

definition world_with :: "reply list \<Rightarrow> string list \<Rightarrow> world" where
  "world_with rs fs = \<lparr>inbound = rs, sent = [], readable = fs, handles = [], stdout = []\<rparr>"

definition demo_tem :: TEMSimulator where
  "demo_tem =
     \<lparr>path_dict = [(''pdb_keyword'', ''1ABC''), (''micrograph_keyword'', ''series7'')],
      sim_dict = [(''voltage'', JNum 300), (''dose'', JNum 50)],
      output_path_dict = [(''h5_file'', ''out/particles.h5'')]\<rparr>"

text \<open>Whether a listed child carries the title \<open>l\<close>.\<close>

definition has_title :: "string \<Rightarrow> json \<Rightarrow> bool" where
  "has_title l child =
     (case getitem child ''attributes'' of
        Inl _ \<Rightarrow> False
      | Inr a \<Rightarrow> getitem a ''title'' = Inr (JStr l))"

text \<open>The notice one round of the upload loop prints for the file \<open>p\<close> answered by \<open>r\<close>.\<close>

definition notice :: "string \<Rightarrow> response \<Rightarrow> pystr" where
  "notice p r =
     (if status_code r \<noteq> 201
      then [Lit ''Upload '', FmtPath p, Lit '' failed with code '', Fmt (JNum (status_code r))]
      else [Lit ''Uploaded '', FmtPath p, Lit '' ''])"

section \<open>Properties\<close>

subsection \<open>The network\<close>

lemma send_sent: "sent (snd (send rq w)) = sent w @ [rq]"
  by (simp add: send_def split: list.splits reply.splits)

lemma send_Response:
  "inbound w = Response r # rest \<Longrightarrow>
     send rq w = (Inr r, w\<lparr>inbound := rest, sent := sent w @ [rq]\<rparr>)"
  by (simp add: send_def)

lemma send_no_reply:
  "inbound w = [] \<or> inbound w = NoResponse # rest \<Longrightarrow>
     send rq w = (Inl RequestException, w\<lparr>inbound := tl (inbound w), sent := sent w @ [rq]\<rparr>)"
  by (auto simp add: send_def)

lemma get_existing_molecules_sent:
  "sent (snd (get_existing_molecules self w)) = sent w @ [list_request self]"
  using send_sent [of "list_request self" w]
  by (auto simp: get_existing_molecules_def list_request_def requests_get_def Let_def io_bind_def
      raise_for_status_def io_of_def io_raise_def io_return_def split: prod.splits sum.splits)

lemma post_child_node_sent:
  "sent (snd (post_child_node self p t tags w)) = sent w @ [post_request self p t tags]"
  using send_sent [of "post_request self p t tags" w]
  by (auto simp: post_child_node_def post_request_def requests_post_def Let_def io_bind_def
      raise_for_status_def io_of_def io_raise_def io_return_def split: prod.splits sum.splits)

text \<open>What the two remote operations do with an answered request.\<close>

lemma get_existing_molecules_Response:
  assumes "inbound w = Response r # rest"
  shows "get_existing_molecules self w =
     (if 400 \<le> status_code r \<and> status_code r < 600 then Inl (HTTPError r)
      else case response_json r of Inl e \<Rightarrow> Inl e
           | Inr j \<Rightarrow> (case getitem j ''data'' of Inl e \<Rightarrow> Inl e | Inr cs \<Rightarrow> dict_comprehension cs),
      w\<lparr>inbound := rest, sent := sent w @ [list_request self]\<rparr>)"
  using send_Response [OF assms, of "list_request self"]
  by (auto simp: get_existing_molecules_def list_request_def requests_get_def Let_def io_bind_def
      raise_for_status_def io_of_def io_raise_def io_return_def split: prod.splits sum.splits)

lemma post_child_node_Response:
  assumes "inbound w = Response r # rest"
  shows "post_child_node self p t tags w =
     (if 400 \<le> status_code r \<and> status_code r < 600 then Inl (HTTPError r)
      else case response_json r of Inl e \<Rightarrow> Inl e
           | Inr j \<Rightarrow> (case getitem j ''data'' of Inl e \<Rightarrow> Inl e | Inr d \<Rightarrow> getitem d ''id''),
      w\<lparr>inbound := rest, sent := sent w @ [post_request self p t tags]\<rparr>)"
  using send_Response [OF assms, of "post_request self p t tags"]
  by (auto simp: post_child_node_def post_request_def requests_post_def Let_def io_bind_def
      raise_for_status_def io_of_def io_raise_def io_return_def split: prod.splits sum.splits)

subsection \<open>Errors of the two node operations\<close>

lemma getitem_not_HTTPError: "getitem v k \<noteq> Inl (HTTPError r)"
  by (cases v) (auto split: option.splits)

lemma child_entry_not_HTTPError: "child_entry c \<noteq> Inl (HTTPError r)"
  by (auto simp: child_entry_def getitem_not_HTTPError split: sum.splits)

lemma comprehend_not_HTTPError: "comprehend d cs \<noteq> Inl (HTTPError r)"
  by (induction cs arbitrary: d)
     (auto simp: child_entry_not_HTTPError dict_setitem_def split: sum.splits prod.splits)

lemma dict_comprehension_not_HTTPError: "dict_comprehension v \<noteq> Inl (HTTPError r)"
  by (cases v) (auto simp: dict_comprehension_def comprehend_not_HTTPError)

lemma comprehend_ok:
  "\<forall>c\<in>set cs. \<exists>t i. child_entry c = Inr (t, i) \<and> hashable t \<Longrightarrow> \<exists>d'. comprehend d cs = Inr d'"
  by (induction cs arbitrary: d) (auto simp: dict_setitem_def)

lemma comprehend_Inr_entries:
  "comprehend d0 cs = Inr d \<Longrightarrow> \<forall>c\<in>set cs. \<exists>t i. child_entry c = Inr (t, i) \<and> hashable t"
  by (induction cs arbitrary: d0)
     (auto simp: dict_setitem_def split: sum.splits prod.splits if_splits)

text \<open>
  C7, as the code has it. When the request of \<open>get_existing_molecules\<close> or of
  \<open>post_child_node\<close> is answered with a status from 400 to 599, the operation raises the
  \<open>HTTPError\<close> that holds the response, hence its status code and its body. With any other
  status it never raises an \<open>HTTPError\<close>. With a status from 200 to 299 and a JSON body
  whose \<open>data\<close> is a list, the listing returns without raising exactly when every child
  of the list has \<open>attributes.title\<close> and \<open>id\<close> and the title is hashable (a string, a
  number, a boolean or \<open>null\<close>, not a list or an object). With a status from 200 to 299
  and a JSON body with \<open>data.id\<close>, the creation returns that id without raising.
\<close>

theorem remote_operations_raise_on_4xx_5xx:
  assumes "inbound w = Response r # rest"
  shows "(400 \<le> status_code r \<and> status_code r < 600 \<longrightarrow>
            fst (get_existing_molecules self w) = Inl (HTTPError r)
          \<and> fst (post_child_node self p t tags w) = Inl (HTTPError r))
       \<and> (\<not> (400 \<le> status_code r \<and> status_code r < 600) \<longrightarrow>
            fst (get_existing_molecules self w) \<noteq> Inl (HTTPError r')
          \<and> fst (post_child_node self p t tags w) \<noteq> Inl (HTTPError r'))
       \<and> (200 \<le> status_code r \<and> status_code r < 300 \<and> content r = JsonBody j
            \<and> getitem j ''data'' = Inr (JArr cs) \<longrightarrow>
            ((\<exists>d. fst (get_existing_molecules self w) = Inr d) \<longleftrightarrow>
             (\<forall>c\<in>set cs. \<exists>t i. child_entry c = Inr (t, i) \<and> hashable t)))
       \<and> (200 \<le> status_code r \<and> status_code r < 300 \<and> content r = JsonBody j
            \<and> getitem j ''data'' = Inr dd \<and> getitem dd ''id'' = Inr gid \<longrightarrow>
            fst (post_child_node self p t tags w) = Inr gid)"
proof -
  note ops = get_existing_molecules_Response [OF assms] post_child_node_Response [OF assms]
  have a: "fst (get_existing_molecules self w) = Inl (HTTPError r)
          \<and> fst (post_child_node self p t tags w) = Inl (HTTPError r)"
    if "400 \<le> status_code r \<and> status_code r < 600"
    using that by (simp add: ops)
  have b: "fst (get_existing_molecules self w) \<noteq> Inl (HTTPError r')
          \<and> fst (post_child_node self p t tags w) \<noteq> Inl (HTTPError r')"
    if "\<not> (400 \<le> status_code r \<and> status_code r < 600)"
    using that
    by (auto simp: ops response_json_def getitem_not_HTTPError dict_comprehension_not_HTTPError
        split: body.splits sum.splits)
  have c: "(\<exists>d. fst (get_existing_molecules self w) = Inr d) \<longleftrightarrow>
             (\<forall>c\<in>set cs. \<exists>t i. child_entry c = Inr (t, i) \<and> hashable t)"
    if "200 \<le> status_code r \<and> status_code r < 300 \<and> content r = JsonBody j
            \<and> getitem j ''data'' = Inr (JArr cs)"
    using that comprehend_ok [of cs "[]"] comprehend_Inr_entries [of "[]" cs]
    by (auto simp: ops response_json_def dict_comprehension_def)
  have d: "fst (post_child_node self p t tags w) = Inr gid"
    if "200 \<le> status_code r \<and> status_code r < 300 \<and> content r = JsonBody j
            \<and> getitem j ''data'' = Inr dd \<and> getitem dd ''id'' = Inr gid"
    using that by (auto simp: ops response_json_def)
  from a b c d show ?thesis by blast
qed

theorem remote_operations_raise_on_4xx_5xx_witness:
  "fst (get_existing_molecules demo_session (world_with [Response (status_only 404)] []))
     = Inl (HTTPError (status_only 404))
   \<and> fst (post_child_node demo_session (JStr ''R'') ''Y'' None
        (world_with [Response (status_only 404)] []))
     = Inl (HTTPError (status_only 404))
   \<and> fst (get_existing_molecules demo_session
        (world_with [Response (listing 200 [child_node ''X'' ''id1''])] []))
     \<noteq> Inl (HTTPError (status_only 404))
   \<and> (\<exists>d. fst (get_existing_molecules demo_session
        (world_with [Response (listing 200 [child_node ''X'' ''id1''])] [])) = Inr d)
   \<and> \<not> (\<exists>d. fst (get_existing_molecules demo_session
        (world_with [Response (listing 200
           [JObj [(''id'', JStr ''id1''), (''attributes'', JObj [(''title'', JObj [])])]])] []))
        = Inr d)
   \<and> fst (post_child_node demo_session (JStr ''R'') ''Y'' None
        (world_with [Response (created ''id2'')] []))
     = Inr (JStr ''id2'')"
  using remote_operations_raise_on_4xx_5xx [of "world_with [Response (status_only 404)] []"
          "status_only 404" "[]" demo_session "JStr ''R''" "''Y''" None]
        remote_operations_raise_on_4xx_5xx [of
          "world_with [Response (listing 200 [child_node ''X'' ''id1''])] []"
          "listing 200 [child_node ''X'' ''id1'']" "[]" demo_session _ _ _ "status_only 404"
          "JObj [(''data'', JArr [child_node ''X'' ''id1''])]" "[child_node ''X'' ''id1'']"]
        remote_operations_raise_on_4xx_5xx [of
          "world_with [Response (listing 200
             [JObj [(''id'', JStr ''id1''), (''attributes'', JObj [(''title'', JObj [])])]])] []"
          "listing 200 [JObj [(''id'', JStr ''id1''), (''attributes'', JObj [(''title'', JObj [])])]]"
          "[]" demo_session _ _ _ _
          "JObj [(''data'', JArr [JObj [(''id'', JStr ''id1''),
                                        (''attributes'', JObj [(''title'', JObj [])])]])]"
          "[JObj [(''id'', JStr ''id1''), (''attributes'', JObj [(''title'', JObj [])])]]"]
        remote_operations_raise_on_4xx_5xx [of "world_with [Response (created ''id2'')] []"
          "created ''id2''" "[]" demo_session "JStr ''R''" "''Y''" None _
          "JObj [(''data'', JObj [(''id'', JStr ''id2'')])]" _
          "JObj [(''id'', JStr ''id2'')]" "JStr ''id2''"]
  by (simp add: world_with_def status_only_def listing_def created_def child_node_def
      child_entry_def)

text \<open>
  C7 as stated fails in both directions. A status that is not a success but lies outside
  400 to 599 (here 300) raises nothing: both operations return normally. And a success
  status does not exclude an exception: with status 200 and a body without \<open>data\<close> the
  listing raises \<open>KeyError\<close>, with a body that is not JSON the creation raises
  \<open>JSONDecodeError\<close>.
\<close>

theorem remote_operations_status_300_and_bad_body:
  "fst (get_existing_molecules demo_session (world_with [Response (listing 300 [])] [])) = Inr []
   \<and> fst (post_child_node demo_session (JStr ''R'') ''Y'' None
        (world_with [Response \<lparr>status_code = 300,
            content = JsonBody (JObj [(''data'', JObj [(''id'', JStr ''id2'')])])\<rparr>] []))
       = Inr (JStr ''id2'')
   \<and> fst (get_existing_molecules demo_session
        (world_with [Response \<lparr>status_code = 200, content = JsonBody (JObj [])\<rparr>] []))
       = Inl (KeyError (JStr ''data''))
   \<and> fst (post_child_node demo_session (JStr ''R'') ''Y'' None
        (world_with [Response (status_only 200)] []))
       = Inl JSONDecodeError"
  by (simp add: get_existing_molecules_def post_child_node_def requests_get_def requests_post_def
      send_def io_bind_def io_of_def io_return_def raise_for_status_def response_json_def
      dict_comprehension_def world_with_def listing_def status_only_def Let_def)

subsection \<open>Resolving a molecule label\<close>




lemma py_eq_JStr: "py_eq x (JStr l) = (x = JStr l)"
  by (cases x) auto

lemma py_eq_JStr_left: "py_eq (JStr l) x = (x = JStr l)"
  by (cases x) auto

lemma dict_getitem_store:
  "dict_getitem (dict_store d k v) (JStr l) =
     (if k = JStr l then Inr v else dict_getitem d (JStr l))"
  by (induction d) (auto simp: dict_getitem_def py_eq_JStr py_eq_JStr_left)

lemma has_title_entry:
  "child_entry c = Inr (t, i) \<Longrightarrow> has_title l c = (t = JStr l) \<and> getitem c ''id'' = Inr i"
  by (auto simp: child_entry_def has_title_def split: sum.splits)

lemma comprehend_last_wins:
  assumes "\<forall>c\<in>set cs. \<exists>t i. child_entry c = Inr (t, i) \<and> hashable t"
  shows "\<exists>d'. comprehend d cs = Inr d' \<and>
           dict_getitem d' (JStr l) =
             (if filter (has_title l) cs = [] then dict_getitem d (JStr l)
              else getitem (last (filter (has_title l) cs)) ''id'')"
  using assms
proof (induction cs arbitrary: d)
  case Nil
  show ?case by simp
next
  case (Cons c cs)
  then obtain t i where e: "child_entry c = Inr (t, i)" "hashable t" by auto
  from Cons.IH [of "dict_store d t i"] Cons.prems obtain d' where
    d': "comprehend (dict_store d t i) cs = Inr d'"
        "dict_getitem d' (JStr l) =
          (if filter (has_title l) cs = [] then dict_getitem (dict_store d t i) (JStr l)
           else getitem (last (filter (has_title l) cs)) ''id'')"
    by auto
  have "comprehend d (c # cs) = Inr d'"
    using e d' by (simp add: dict_setitem_def)
  moreover have "dict_getitem d' (JStr l) =
             (if filter (has_title l) (c # cs) = [] then dict_getitem d (JStr l)
              else getitem (last (filter (has_title l) (c # cs))) ''id'')"
    using d'(2) has_title_entry [OF e(1), of l] by (simp add: dict_getitem_store)
  ultimately show ?case by blast
qed

lemma dict_getitem_contains: "dict_getitem d k = Inr v \<Longrightarrow> dict_contains d k"
  by (induction d) (auto simp: dict_getitem_def dict_contains_def split: if_splits)





text \<open>
  C8. When the listing succeeds with well-formed children and at least one child carries
  the title \<open>l\<close>, the mapping built by \<open>get_existing_molecules\<close> holds, for \<open>l\<close>, the
  \<open>id\<close> of the last child with that title in listing order, and that is what
  \<open>get_molecule_guid\<close> returns, without sending a POST.
\<close>

theorem duplicate_titles_last_wins:
  assumes "inbound w = Response r # rest"
    and "\<not> (400 \<le> status_code r \<and> status_code r < 600)"
    and "content r = JsonBody j"
    and "getitem j ''data'' = Inr (JArr cs)"
    and "\<forall>c\<in>set cs. \<exists>t i. child_entry c = Inr (t, i) \<and> hashable t"
    and "filter (has_title l) cs \<noteq> []"
  shows "(\<exists>d. fst (get_existing_molecules self w) = Inr d
            \<and> dict_getitem d (JStr l) = getitem (last (filter (has_title l) cs)) ''id'')
       \<and> fst (get_molecule_guid self l w) = getitem (last (filter (has_title l) cs)) ''id''
       \<and> sent (snd (get_molecule_guid self l w)) = sent w @ [list_request self]"
proof -
  let ?w1 = "w\<lparr>inbound := rest, sent := sent w @ [list_request self]\<rparr>"
  let ?c = "last (filter (has_title l) cs)"
  from comprehend_last_wins [OF assms(5), of "[]" l] assms(6) obtain d where
    d: "comprehend [] cs = Inr d" "dict_getitem d (JStr l) = getitem ?c ''id''"
    by auto
  have "?c \<in> set cs"
    using assms(6) last_in_set [of "filter (has_title l) cs"] by auto
  with assms(5) obtain t i where "child_entry ?c = Inr (t, i)" by blast
  then have i: "getitem ?c ''id'' = Inr i"
    using has_title_entry by blast
  have run: "get_existing_molecules self w = (Inr d, ?w1)"
    using assms(2,3,4) d(1)
    by (simp add: get_existing_molecules_Response [OF assms(1)] response_json_def
        dict_comprehension_def)
  have "dict_contains d (JStr l)"
    using d(2) i dict_getitem_contains by simp
  then have "get_molecule_guid self l w = (getitem ?c ''id'', ?w1)"
    using run d(2) by (simp add: get_molecule_guid_def io_bind_def io_of_def)
  with run d(2) show ?thesis by simp
qed

theorem duplicate_titles_last_wins_witness:
  "fst (get_molecule_guid demo_session ''X''
     (world_with [Response (listing 200
        [child_node ''X'' ''id1'', child_node ''Y'' ''id2'', child_node ''X'' ''id3''])] []))
   = Inr (JStr ''id3'')"
  using duplicate_titles_last_wins [of
      "world_with [Response (listing 200
        [child_node ''X'' ''id1'', child_node ''Y'' ''id2'', child_node ''X'' ''id3''])] []"
      "listing 200 [child_node ''X'' ''id1'', child_node ''Y'' ''id2'', child_node ''X'' ''id3'']"
      "[]"
      "JObj [(''data'', JArr [child_node ''X'' ''id1'', child_node ''Y'' ''id2'', child_node ''X'' ''id3''])]"
      "[child_node ''X'' ''id1'', child_node ''Y'' ''id2'', child_node ''X'' ''id3'']"
      "''X''" demo_session]
  by (simp add: world_with_def listing_def child_node_def child_entry_def has_title_def)

subsection \<open>Initialisation\<close>

text \<open>
  C6, as the code has it. \<open>__init__\<close> sends one GET to the base url. If the answer has a
  status from 400 to 599 it raises the \<open>HTTPError\<close> of that response, and if no answer
  arrives it raises too; in both cases whatever is to follow on the session (\<open>k\<close>) is not
  run: the run ends with the exception and the liveness GET is the only request sent.
  With any other status, 2xx or not, \<open>__init__\<close> completes and returns the session.
\<close>

theorem init_fails_closed_on_4xx_5xx:
  "(inbound w = Response r # rest \<and> 400 \<le> status_code r \<and> status_code r < 600 \<longrightarrow>
      io_bind (TEMUpload_init token guid) k w =
        (Inl (HTTPError r), w\<lparr>inbound := rest, sent := sent w @ [liveness_request token]\<rparr>))
   \<and> (inbound w = [] \<or> inbound w = NoResponse # rest \<longrightarrow>
      io_bind (TEMUpload_init token guid) k w =
        (Inl RequestException,
         w\<lparr>inbound := tl (inbound w), sent := sent w @ [liveness_request token]\<rparr>))
   \<and> (inbound w = Response r # rest \<and> \<not> (400 \<le> status_code r \<and> status_code r < 600) \<longrightarrow>
      TEMUpload_init token guid w =
        (Inr \<lparr>headers = [(''Authorization'', ''Bearer '' @ token)],
              base_url = ''https://api.osf.io/v2/'', data_node_guid = guid\<rparr>,
         w\<lparr>inbound := rest, sent := sent w @ [liveness_request token]\<rparr>))"
proof (intro conjI impI)
  assume "inbound w = Response r # rest \<and> 400 \<le> status_code r \<and> status_code r < 600"
  then show "io_bind (TEMUpload_init token guid) k w =
        (Inl (HTTPError r), w\<lparr>inbound := rest, sent := sent w @ [liveness_request token]\<rparr>)"
    using send_Response [of w r rest "liveness_request token"]
    by (simp add: TEMUpload_init_def liveness_request_def requests_get_def io_bind_def
        raise_for_status_def io_raise_def Let_def)
next
  assume "inbound w = [] \<or> inbound w = NoResponse # rest"
  then show "io_bind (TEMUpload_init token guid) k w =
        (Inl RequestException,
         w\<lparr>inbound := tl (inbound w), sent := sent w @ [liveness_request token]\<rparr>)"
    using send_no_reply [of w rest "liveness_request token"]
    by (simp add: TEMUpload_init_def liveness_request_def requests_get_def io_bind_def Let_def)
next
  assume "inbound w = Response r # rest \<and> \<not> (400 \<le> status_code r \<and> status_code r < 600)"
  then show "TEMUpload_init token guid w =
        (Inr \<lparr>headers = [(''Authorization'', ''Bearer '' @ token)],
              base_url = ''https://api.osf.io/v2/'', data_node_guid = guid\<rparr>,
         w\<lparr>inbound := rest, sent := sent w @ [liveness_request token]\<rparr>)"
    using send_Response [of w r rest "liveness_request token"]
    by (auto simp add: TEMUpload_init_def liveness_request_def requests_get_def io_bind_def
        raise_for_status_def io_return_def Let_def)
qed

theorem init_fails_closed_on_4xx_5xx_witness:
  "io_bind (TEMUpload_init ''tok'' ''R'') get_existing_molecules
       (world_with [Response (status_only 401), Response (listing 200 [])] [])
     = (Inl (HTTPError (status_only 401)),
        (world_with [Response (listing 200 [])] [])\<lparr>sent := [liveness_request ''tok'']\<rparr>)
   \<and> io_bind (TEMUpload_init ''tok'' ''R'') get_existing_molecules
       (world_with [NoResponse, Response (listing 200 [])] [])
     = (Inl RequestException,
        (world_with [Response (listing 200 [])] [])\<lparr>sent := [liveness_request ''tok'']\<rparr>)
   \<and> TEMUpload_init ''tok'' ''R'' (world_with [Response (status_only 200)] [])
     = (Inr demo_session, (world_with [] [])\<lparr>sent := [liveness_request ''tok'']\<rparr>)"
  using init_fails_closed_on_4xx_5xx [of
          "world_with [Response (status_only 401), Response (listing 200 [])] []"
          "status_only 401" "[Response (listing 200 [])]" "''tok''" "''R''" get_existing_molecules]
        init_fails_closed_on_4xx_5xx [of
          "world_with [NoResponse, Response (listing 200 [])] []"
          "status_only 401" "[Response (listing 200 [])]" "''tok''" "''R''" get_existing_molecules]
        init_fails_closed_on_4xx_5xx [of
          "world_with [Response (status_only 200)] []"
          "status_only 200" "[]" "''tok''" "''R''" get_existing_molecules]
  by (simp add: world_with_def status_only_def demo_session_def)

text \<open>
  C6 as stated fails: a liveness check answered with status 304, which is not 2xx, lets
  \<open>__init__\<close> complete, and a following call on the session is sent.
\<close>

theorem init_completes_on_304:
  "TEMUpload_init ''tok'' ''R'' (world_with [Response (status_only 304), Response (listing 200 [])] [])
     = (Inr demo_session,
        (world_with [Response (listing 200 [])] [])\<lparr>sent := [liveness_request ''tok'']\<rparr>)
   \<and> sent (snd (io_bind (TEMUpload_init ''tok'' ''R'') get_existing_molecules
        (world_with [Response (status_only 304), Response (listing 200 [])] [])))
     = [liveness_request ''tok'', list_request demo_session]"
  by (simp add: TEMUpload_init_def liveness_request_def requests_get_def io_bind_def send_def
      raise_for_status_def io_return_def Let_def world_with_def status_only_def demo_session_def
      get_existing_molecules_sent)

subsection \<open>Tags\<close>

text \<open>
  C5. \<open>generate_tags_from_tem\<close> returns the values of \<open>sim_dict\<close> in the dict's order,
  and no key; for \<open>{a: 1, b: 2}\<close> the tags are \<open>[1, 2]\<close>.
\<close>

theorem generate_tags_values_in_order:
  "generate_tags_from_tem t = map snd (sim_dict t)
   \<and> generate_tags_from_tem
        \<lparr>path_dict = pd, sim_dict = [(''a'', JNum 1), (''b'', JNum 2)], output_path_dict = od\<rparr>
       = [JNum 1, JNum 2]"
  by (simp add: generate_tags_from_tem_def dict_values_def)

subsection \<open>The upload loop\<close>

lemma loop_step:
  assumes "p \<in> set (readable w)" and "inbound w = Response r # rest"
  shows "post_files_loop self url (p # ps) b w =
           post_files_loop self url ps (b \<and> status_code r = 201)
             (w\<lparr>handles := handles w @ [p], inbound := rest,
                sent := sent w @ [put_request self url p], stdout := stdout w @ [notice p r]\<rparr>)"
  using assms
  by (simp add: io_bind_def open_rb_def requests_put_def send_def put_request_def print_def
      notice_def Let_def)

lemma loop_unreadable:
  "p \<notin> set (readable w) \<Longrightarrow> post_files_loop self url (p # ps) b w = (Inl (OSError p), w)"
  by (simp add: io_bind_def open_rb_def)

lemma loop_no_reply:
  assumes "p \<in> set (readable w)" and "inbound w = [] \<or> inbound w = NoResponse # rest"
  shows "post_files_loop self url (p # ps) b w =
           (Inl RequestException,
            w\<lparr>handles := handles w @ [p], inbound := tl (inbound w),
              sent := sent w @ [put_request self url p]\<rparr>)"
  using assms
  by (auto simp add: io_bind_def open_rb_def requests_put_def send_def put_request_def Let_def)

lemma loop_append:
  "post_files_loop self url (xs @ ys) b =
     io_bind (post_files_loop self url xs b) (\<lambda>b'. post_files_loop self url ys b')"
proof (induction xs arbitrary: b)
  case Nil
  show ?case by (simp add: io_bind_def io_return_def fun_eq_iff)
next
  case (Cons x xs)
  show ?case
    by (simp add: Cons.IH Let_def io_bind_def fun_eq_iff split: prod.splits sum.splits)
qed

declare post_files_loop.simps(2) [simp del]

text \<open>When every file opens and every request is answered, the loop runs to its end.\<close>

lemma loop_all:
  assumes "\<forall>p\<in>set ps. p \<in> set (readable w)"
    and "inbound w = map Response rs @ rest" and "length rs = length ps"
  shows "post_files_loop self url ps b w =
           (Inr (b \<and> (\<forall>r\<in>set rs. status_code r = 201)),
            w\<lparr>inbound := rest, sent := sent w @ map (put_request self url) ps,
              handles := handles w @ ps, stdout := stdout w @ map2 notice ps rs\<rparr>)"
  using assms
proof (induction ps arbitrary: rs w b)
  case Nil
  then show ?case by (simp add: io_return_def)
next
  case (Cons p ps)
  then obtain r rs' where rs: "rs = r # rs'" by (cases rs) auto
  let ?w = "w\<lparr>handles := handles w @ [p], inbound := map Response rs' @ rest,
                sent := sent w @ [put_request self url p], stdout := stdout w @ [notice p r]\<rparr>"
  have step: "post_files_loop self url (p # ps) b w =
      post_files_loop self url ps (b \<and> status_code r = 201) ?w"
    using Cons.prems rs by (intro loop_step) auto
  have "post_files_loop self url ps (b \<and> status_code r = 201) ?w =
      (Inr ((b \<and> status_code r = 201) \<and> (\<forall>r\<in>set rs'. status_code r = 201)),
       ?w\<lparr>inbound := rest, sent := sent ?w @ map (put_request self url) ps,
              handles := handles ?w @ ps, stdout := stdout ?w @ map2 notice ps rs'\<rparr>)"
    using Cons.prems rs by (intro Cons.IH) auto
  with step rs show ?case by auto
qed

text \<open>
  Whatever happens, the loop has sent the requests of a prefix of the files, all of which
  opened, and holds one handle for each of them; it raised unless the prefix is the whole list.
\<close>

lemma loop_trace:
  "\<exists>n\<le>length ps.
      sent (snd (post_files_loop self url ps b w)) = sent w @ map (put_request self url) (take n ps)
    \<and> handles (snd (post_files_loop self url ps b w)) = handles w @ take n ps
    \<and> (n < length ps \<longrightarrow> (\<exists>e. fst (post_files_loop self url ps b w) = Inl e))
    \<and> (\<forall>q\<in>set (take n ps). q \<in> set (readable w))"
proof (induction ps arbitrary: b w)
  case Nil
  show ?case by (simp add: io_return_def)
next
  case (Cons p ps)
  show ?case
  proof (cases "p \<in> set (readable w)")
    case False
    then show ?thesis by (intro exI [of _ 0]) (simp add: loop_unreadable)
  next
    case True
    show ?thesis
    proof (cases "\<exists>r rest. inbound w = Response r # rest")
      case False
      then have "inbound w = [] \<or> inbound w = NoResponse # tl (inbound w)"
        by (cases "inbound w") (auto split: reply.splits intro: reply.exhaust)
      from loop_no_reply [OF True this] show ?thesis using True
        by (intro exI [of _ 1]) simp
    next
      case yes: True
      then obtain r rest where r: "inbound w = Response r # rest" by blast
      let ?w = "w\<lparr>handles := handles w @ [p], inbound := rest,
                sent := sent w @ [put_request self url p], stdout := stdout w @ [notice p r]\<rparr>"
      let ?b = "b \<and> status_code r = 201"
      have step: "post_files_loop self url (p # ps) b w = post_files_loop self url ps ?b ?w"
        using True r by (rule loop_step)
      from Cons.IH [of ?b ?w] obtain n where
        n: "n \<le> length ps"
        "sent (snd (post_files_loop self url ps ?b ?w)) = sent ?w @ map (put_request self url) (take n ps)"
        "handles (snd (post_files_loop self url ps ?b ?w)) = handles ?w @ take n ps"
        "n < length ps \<longrightarrow> (\<exists>e. fst (post_files_loop self url ps ?b ?w) = Inl e)"
        "\<forall>q\<in>set (take n ps). q \<in> set (readable ?w)"
        by blast
      show ?thesis using n step True by (intro exI [of _ "Suc n"]) simp
    qed
  qed
qed

text \<open>
  C3. When every file can be opened and every upload request gets a response,
  \<open>post_files\<close> returns \<open>True\<close> exactly if every response has status 201; a response with
  any other status (200 and 404 alike) makes the result \<open>False\<close> without stopping the loop:
  one PUT request has been sent for every file of the list, in order, and as many replies
  have been consumed.
\<close>

theorem post_files_true_iff_all_201:
  assumes "\<forall>p\<in>set ps. p \<in> set (readable w)"
    and "inbound w = map Response rs @ rest"
    and "length rs = length ps"
  shows "fst (post_files self g ps w) = Inr (\<forall>r\<in>set rs. status_code r = 201)
       \<and> sent (snd (post_files self g ps w)) = sent w @ map (put_request self (files_url g)) ps
       \<and> inbound (snd (post_files self g ps w)) = rest"
  using loop_all [OF assms, of self "files_url g" True]
  by (simp add: post_files_def)

theorem post_files_true_iff_all_201_witness:
  "fst (post_files demo_session (JStr ''D'') [''a.h5'', ''b.h5'']
          (world_with [Response (status_only 201), Response (status_only 404)] [''a.h5'', ''b.h5'']))
     = Inr False
   \<and> sent (snd (post_files demo_session (JStr ''D'') [''a.h5'', ''b.h5'']
          (world_with [Response (status_only 201), Response (status_only 404)] [''a.h5'', ''b.h5''])))
     = [put_request demo_session (files_url (JStr ''D'')) ''a.h5'',
        put_request demo_session (files_url (JStr ''D'')) ''b.h5'']
   \<and> fst (post_files demo_session (JStr ''D'') [''a.h5'', ''b.h5'']
          (world_with [Response (status_only 201), Response (status_only 201)] [''a.h5'', ''b.h5'']))
     = Inr True
   \<and> fst (post_files demo_session (JStr ''D'') [''a.h5'', ''b.h5'']
          (world_with [Response (status_only 200), Response (status_only 201)] [''a.h5'', ''b.h5'']))
     = Inr False"
  using post_files_true_iff_all_201 [of "[''a.h5'', ''b.h5'']"
          "world_with [Response (status_only 201), Response (status_only 404)] [''a.h5'', ''b.h5'']"
          "[status_only 201, status_only 404]" "[]" demo_session "JStr ''D''"]
        post_files_true_iff_all_201 [of "[''a.h5'', ''b.h5'']"
          "world_with [Response (status_only 201), Response (status_only 201)] [''a.h5'', ''b.h5'']"
          "[status_only 201, status_only 201]" "[]" demo_session "JStr ''D''"]
        post_files_true_iff_all_201 [of "[''a.h5'', ''b.h5'']"
          "world_with [Response (status_only 200), Response (status_only 201)] [''a.h5'', ''b.h5'']"
          "[status_only 200, status_only 201]" "[]" demo_session "JStr ''D''"]
  by (simp add: world_with_def status_only_def)

text \<open>
  C9, as the code has it. \<open>post_files\<close> opens one handle for every file it sends and closes
  none itself: at its end, whether it returned or raised, not one of the handles of the
  files it has sent so far has been closed by the program. Any release is left to the
  garbage collector of the Python runtime.
\<close>

theorem post_files_never_closes:
  "handles (snd (post_files self g ps w)) =
     handles w @ take (length (sent (snd (post_files self g ps w))) - length (sent w)) ps"
proof -
  obtain n where "n \<le> length ps"
    "sent (snd (post_files_loop self (files_url g) ps True w)) =
       sent w @ map (put_request self (files_url g)) (take n ps)"
    "handles (snd (post_files_loop self (files_url g) ps True w)) = handles w @ take n ps"
    using loop_trace [of ps self "files_url g" True w] by blast
  then show ?thesis by (simp add: post_files_def)
qed

text \<open>
  C9 as stated fails: after two successful uploads the program has closed neither handle,
  so the first was not released before the loop went on to the second file.
\<close>

theorem post_files_handle_left_open:
  "handles (snd (post_files demo_session (JStr ''D'') [''a.h5'', ''b.h5'']
      (world_with [Response (status_only 201), Response (status_only 201)] [''a.h5'', ''b.h5''])))
   = [''a.h5'', ''b.h5'']"
  by (simp add: post_files_def files_url_def post_files_loop.simps io_bind_def open_rb_def
      requests_put_def send_def print_def io_return_def world_with_def status_only_def Let_def)

text \<open>
  C10. If a path of the list cannot be opened while all paths before it can, \<open>post_files\<close>
  raises instead of returning a boolean, and the only requests it has sent are those of
  files before that path: neither that file nor any later one is uploaded. When the
  earlier uploads were all answered, the exception is the \<open>OSError\<close> of the failed \<open>open\<close>
  and exactly the earlier files have been sent.
\<close>

theorem post_files_unreadable_raises:
  assumes "ps = pre @ p # post"
    and "\<forall>q\<in>set pre. q \<in> set (readable w)"
    and "p \<notin> set (readable w)"
  shows "(\<exists>e. fst (post_files self g ps w) = Inl e)
       \<and> (\<exists>n\<le>length pre. sent (snd (post_files self g ps w)) =
             sent w @ map (put_request self (files_url g)) (take n pre))
       \<and> (inbound w = map Response rs @ rest \<and> length rs = length pre \<longrightarrow>
             fst (post_files self g ps w) = Inl (OSError p)
           \<and> sent (snd (post_files self g ps w)) =
               sent w @ map (put_request self (files_url g)) pre)"
proof -
  let ?run = "post_files_loop self (files_url g) ps True w"
  obtain n where n: "n \<le> length ps"
    "sent (snd ?run) = sent w @ map (put_request self (files_url g)) (take n ps)"
    "n < length ps \<longrightarrow> (\<exists>e. fst ?run = Inl e)"
    "\<forall>q\<in>set (take n ps). q \<in> set (readable w)"
    using loop_trace [of ps self "files_url g" True w] by blast
  have le: "n \<le> length pre"
  proof (rule ccontr)
    assume "\<not> n \<le> length pre"
    then obtain k where "n = length pre + Suc k"
      by (metis add_Suc_right less_imp_Suc_add not_le)
    then have "take n ps = pre @ p # take k post"
      using assms(1) by simp
    with n(4) assms(3) show False by simp
  qed
  have a: "\<exists>e. fst (post_files self g ps w) = Inl e"
    using n(3) le assms(1) by (simp add: post_files_def)
  have b: "\<exists>n\<le>length pre. sent (snd (post_files self g ps w)) =
             sent w @ map (put_request self (files_url g)) (take n pre)"
    using n(2) le assms(1) by (intro exI [of _ n]) (simp add: post_files_def)
  have c: "fst (post_files self g ps w) = Inl (OSError p)
           \<and> sent (snd (post_files self g ps w)) =
               sent w @ map (put_request self (files_url g)) pre"
    if "inbound w = map Response rs @ rest" and "length rs = length pre"
  proof -
    let ?w = "w\<lparr>inbound := rest, sent := sent w @ map (put_request self (files_url g)) pre,
              handles := handles w @ pre, stdout := stdout w @ map2 notice pre rs\<rparr>"
    have "post_files_loop self (files_url g) pre True w =
        (Inr (True \<and> (\<forall>r\<in>set rs. status_code r = 201)), ?w)"
      using assms(2) that by (rule loop_all)
    moreover have "post_files_loop self (files_url g) (p # post) b' ?w = (Inl (OSError p), ?w)"
      for b'
      using assms(3) by (intro loop_unreadable) simp
    ultimately show ?thesis
      by (simp add: post_files_def Let_def assms(1) loop_append io_bind_def)
  qed
  from a b c show ?thesis by blast
qed

theorem post_files_unreadable_raises_witness:
  "fst (post_files demo_session (JStr ''D'') [''a.h5'', ''gone.h5'', ''b.h5'']
          (world_with [Response (status_only 201), Response (status_only 201)] [''a.h5'', ''b.h5'']))
     = Inl (OSError ''gone.h5'')
   \<and> sent (snd (post_files demo_session (JStr ''D'') [''a.h5'', ''gone.h5'', ''b.h5'']
          (world_with [Response (status_only 201), Response (status_only 201)] [''a.h5'', ''b.h5''])))
     = [put_request demo_session (files_url (JStr ''D'')) ''a.h5'']"
  using post_files_unreadable_raises [of "[''a.h5'', ''gone.h5'', ''b.h5'']" "[''a.h5'']"
          "''gone.h5''" "[''b.h5'']"
          "world_with [Response (status_only 201), Response (status_only 201)] [''a.h5'', ''b.h5'']"
          demo_session "JStr ''D''" "[status_only 201]" "[Response (status_only 201)]"]
  by (simp add: world_with_def)

subsection \<open>The dataset node\<close>

lemma post_files_sent_extends:
  "\<exists>xs. sent (snd (post_files self g ps w)) = sent w @ xs"
  using loop_trace [of ps self "files_url g" True w] by (auto simp: post_files_def)

text \<open>
  C4. When \<open>path_dict\<close> holds the strings \<open>m\<close> under \<open>pdb_keyword\<close> and \<open>g\<close> under
  \<open>micrograph_keyword\<close> (empty or not) and the molecule node resolves to \<open>mg\<close>, the next
  request \<open>upload_dataset_from_tem\<close> sends is the POST that creates the dataset node under
  \<open>mg\<close>, and its title is \<open>m @ g\<close>: the two strings in that order with nothing between.
\<close>

theorem dataset_label_is_concatenation:
  assumes "str_getitem (path_dict t) ''pdb_keyword'' = Inr m"
    and "str_getitem (path_dict t) ''micrograph_keyword'' = Inr g"
    and "get_molecule_guid self m w = (Inr mg, w1)"
  shows "take (Suc (length (sent w1))) (sent (snd (upload_dataset_from_tem self t w))) =
           sent w1 @ [post_request self mg (m @ g) (Some (generate_tags_from_tem t))]
       \<and> map_of (node_attributes (m @ g) (Some (generate_tags_from_tem t))) ''title''
           = Some (JStr (m @ g))"
proof -
  let ?tags = "Some (generate_tags_from_tem t)"
  let ?rest = "\<lambda>dataset_guid.
     io_bind (io_of (str_getitem (output_path_dict t) ''h5_file'')) (\<lambda>h5_file.
       post_files self dataset_guid [h5_file])"
  have run: "upload_dataset_from_tem self t w =
      io_bind (post_child_node self mg (m @ g) ?tags) ?rest w1"
    using assms by (simp add: upload_dataset_from_tem_def io_bind_def io_of_def Let_def)
  obtain res w2 where p: "post_child_node self mg (m @ g) ?tags w1 = (res, w2)"
    by (cases "post_child_node self mg (m @ g) ?tags w1")
  have s2: "sent w2 = sent w1 @ [post_request self mg (m @ g) ?tags]"
    using post_child_node_sent [of self mg "m @ g" ?tags w1] p by simp
  have "\<exists>xs. sent (snd (upload_dataset_from_tem self t w)) = sent w2 @ xs"
  proof (cases res)
    case (Inl e)
    then show ?thesis using run p by (simp add: io_bind_def)
  next
    case (Inr dg)
    show ?thesis
    proof (cases "str_getitem (output_path_dict t) ''h5_file''")
      case (Inl e)
      then show ?thesis using run p Inr by (simp add: io_bind_def io_of_def)
    next
      case h5: (Inr h5)
      then show ?thesis using run p Inr post_files_sent_extends [of self dg "[h5]" w2]
        by (simp add: io_bind_def io_of_def)
    qed
  qed
  then obtain xs where "sent (snd (upload_dataset_from_tem self t w)) = sent w2 @ xs" by blast
  then show ?thesis using s2 by (simp add: node_attributes_def)
qed

theorem dataset_label_is_concatenation_witness:
  "take 2 (sent (snd (upload_dataset_from_tem demo_session demo_tem
      (world_with [Response (listing 200 [child_node ''1ABC'' ''mol1'']),
                   Response (created ''ds1''), Response (status_only 201)]
                  [''out/particles.h5'']))))
   = [list_request demo_session,
      post_request demo_session (JStr ''mol1'') ''1ABCseries7'' (Some [JNum 300, JNum 50])]"
proof -
  let ?rs = "[Response (created ''ds1''), Response (status_only 201)]"
  let ?w = "world_with (Response (listing 200 [child_node ''1ABC'' ''mol1'']) # ?rs)
              [''out/particles.h5'']"
  let ?w1 = "(world_with ?rs [''out/particles.h5''])\<lparr>sent := [list_request demo_session]\<rparr>"
  have a: "str_getitem (path_dict demo_tem) ''pdb_keyword'' = Inr ''1ABC''"
    by (simp add: str_getitem_def demo_tem_def)
  have b: "str_getitem (path_dict demo_tem) ''micrograph_keyword'' = Inr ''series7''"
    by (simp add: str_getitem_def demo_tem_def)
  have c: "get_molecule_guid demo_session ''1ABC'' ?w = (Inr (JStr ''mol1''), ?w1)"
    by (simp add: get_molecule_guid_def io_bind_def io_of_def
        get_existing_molecules_Response [of _ "listing 200 [child_node ''1ABC'' ''mol1'']" ?rs]
        world_with_def listing_def child_node_def response_json_def dict_comprehension_def
        child_entry_def dict_setitem_def dict_contains_def dict_getitem_def)
  have t: "generate_tags_from_tem demo_tem = [JNum 300, JNum 50]"
    by (simp add: generate_tags_from_tem_def dict_values_def demo_tem_def)
  from dataset_label_is_concatenation [OF a b c] show ?thesis
    by (simp add: t world_with_def numeral_2_eq_2)
qed

end
